theory Spec2Isabelle
  imports Main "HOL-Library.Product_Lexorder" "HOL-Library.Multiset"
begin

section \<open>Dates and times\<close>

text \<open>
  A \<open>datetime.date\<close> is identified with its proleptic Gregorian ordinal
  (\<open>date.toordinal()\<close>: day 1 is 0001-01-01). Date arithmetic and comparison in
  Python go through this ordinal. The ordinals of dates run from 1 to \<open>MAXORDINAL\<close>,
  the ordinal of \<open>date.max\<close> (9999-12-31).
\<close>

type_synonym date = int

definition MAXORDINAL :: int where
  "MAXORDINAL = 3652059"

text \<open>\<open>date.__add__\<close> with \<open>timedelta(days=n)\<close>: the sum of the ordinals when it is
  the ordinal of a date, and otherwise \<open>OverflowError\<close> (\<open>None\<close>).\<close>

definition date_add_days :: "date \<Rightarrow> int \<Rightarrow> date option" where
  "date_add_days d n =
     (let ordinal = d + n in if 0 < ordinal \<and> ordinal \<le> MAXORDINAL then Some ordinal else None)"

text \<open>The standard library's \<open>_is_leap\<close>, \<open>_days_before_year\<close>,
  \<open>_days_before_month\<close> and \<open>_ymd2ord\<close>, used to name concrete calendar dates.\<close>

definition is_leap :: "int \<Rightarrow> bool" where
  "is_leap year \<longleftrightarrow> year mod 4 = 0 \<and> (year mod 100 \<noteq> 0 \<or> year mod 400 = 0)"

definition days_before_year :: "int \<Rightarrow> int" where
  "days_before_year year =
     (let y = year - 1 in y * 365 + y div 4 - y div 100 + y div 400)"

definition DAYS_BEFORE_MONTH :: "int list" where
  "DAYS_BEFORE_MONTH = [-1, 0, 31, 59, 90, 120, 151, 181, 212, 243, 273, 304, 334]"

definition days_before_month :: "int \<Rightarrow> nat \<Rightarrow> int" where
  "days_before_month year month =
     DAYS_BEFORE_MONTH ! month + (if month > 2 \<and> is_leap year then 1 else 0)"

definition ymd2ord :: "int \<Rightarrow> nat \<Rightarrow> int \<Rightarrow> date" where
  "ymd2ord year month day = days_before_year year + days_before_month year month + day"

text \<open>\<open>date.weekday()\<close>: Monday is 0, Saturday is 5, Sunday is 6.\<close>

definition weekday :: "date \<Rightarrow> int" where
  "weekday d = (d + 6) mod 7"

text \<open>
  A naive \<open>datetime\<close>: its date and its time of day. Python orders naive datetimes
  as the tuples (year, month, day, hour, minute, second, microsecond); the first three
  components are ordered as the ordinal is.
\<close>

record datetime =
  dt_date :: date
  hour :: nat
  minute :: nat
  second :: nat
  microsecond :: nat

definition datetime_tuple :: "datetime \<Rightarrow> date \<times> nat \<times> nat \<times> nat \<times> nat" where
  "datetime_tuple t = (dt_date t, hour t, minute t, second t, microsecond t)"

definition datetime_gt :: "datetime \<Rightarrow> datetime \<Rightarrow> bool" where
  "datetime_gt a b \<longleftrightarrow> datetime_tuple b < datetime_tuple a"

text \<open>\<open>is_weekend(check_date)\<close>, backend_server.py line 114.\<close>

definition is_weekend :: "date \<Rightarrow> bool" where
  "is_weekend check_date \<longleftrightarrow> weekday check_date \<ge> 5"

text \<open>\<open>is_after_cutoff_time()\<close>, line 118; its argument is the value that
  \<open>datetime.now()\<close> returns inside it.\<close>

definition is_after_cutoff_time :: "datetime \<Rightarrow> bool" where
  "is_after_cutoff_time now =
     (let cutoff = now\<lparr>hour := 21, minute := 30, second := 0, microsecond := 0\<rparr>
      in datetime_gt now cutoff)"

section \<open>The database, the log and the outside world\<close>

type_synonym timestamp = int

text \<open>
  Modelled from the spec: the schema of the three tables, which is not part of the
  source files. An AttendanceRecord is (user identifier, date, status, last-marked
  timestamp), unique per (user, date); a User has an email, a role and an active flag;
  the columns of a notification row are those that the INSERT statement of
  \<open>send_chef_notification\<close> names.
\<close>

record user =
  email :: string
  role :: string
  is_active :: bool

record attendance_row =
  user_id :: int
  att_date :: date
  att_status :: string
  marked_at :: timestamp

record notification_row =
  n_type :: string
  recipient_email :: string
  content :: string
  n_office_count :: nat
  n_status :: string

record database =
  users :: "user list"
  attendance :: "attendance_row list"
  notifications :: "notification_row list"

datatype level = INFO | WARNING | ERROR

type_synonym log_record = "level \<times> string"

text \<open>The process's observable state: the committed database, the records written
  through \<open>logger\<close>, and the requests posted to the email gateway.\<close>

record world =
  db :: database
  log :: "log_record list"
  outbox :: "(string \<times> string \<times> string) list"

text \<open>The statements a handler sends to MySQL; \<open>InsertNotification k\<close> is the INSERT
  of the \<open>k\<close>-th iteration of the send loop.\<close>

datatype db_op =
  Connect | UpsertAttendance | SelectAttendance | SelectOfficeCount | SelectChefs
  | InsertNotification nat | Commit

text \<open>What \<open>requests.post\<close> does: a response (status code, text) or an exception.\<close>

datatype post_result = Response nat string | RequestException string

text \<open>
  Everything one invocation reads from outside the process:
  \<^item> \<open>today\<close> and \<open>now\<close>: the values of \<open>date.today()\<close> and \<open>datetime.now()\<close>
    (two separate readings of the clock);
  \<^item> \<open>strptime\<close>: \<open>datetime.strptime(s, "%Y-%m-%d").date()\<close>, \<open>None\<close> where it raises
    \<open>ValueError\<close>;
  \<^item> \<open>current_timestamp\<close>: the database's \<open>CURRENT_TIMESTAMP\<close>;
  \<^item> \<open>mysql_date\<close>: the date that MySQL reads from a string compared with a DATE column;
  \<^item> \<open>brevo_api_key\<close>: \<open>os.getenv("BREVO_API_KEY")\<close>;
  \<^item> \<open>requests_post\<close>: the gateway's answer to \<open>requests.post\<close>, by the position of the
    call in the send loop and by recipient, subject and body;
  \<^item> \<open>db_error\<close>: which database operation raises \<open>mysql.connector.Error\<close>, with the
    error's text;
  \<^item> \<open>strftime_date\<close> and \<open>strftime_time\<close>: \<open>strftime('%B %d, %Y')\<close> and
    \<open>strftime('%I:%M %p')\<close>, which depend on the locale.
\<close>

record env =
  today :: date
  now :: datetime
  strptime :: "string \<Rightarrow> date option"
  current_timestamp :: timestamp
  mysql_date :: "string \<Rightarrow> date option"
  brevo_api_key :: "string option"
  requests_post :: "nat \<Rightarrow> string \<Rightarrow> string \<Rightarrow> string \<Rightarrow> post_result"
  db_error :: "db_op \<Rightarrow> string option"
  strftime_date :: "date \<Rightarrow> string"
  strftime_time :: "datetime \<Rightarrow> string"

text \<open>An \<open>HTTPException\<close> (status code, detail), or another exception that leaves the
  handler uncaught.\<close>

datatype error = HTTPException nat string | Uncaught string

definition log_msg :: "level \<Rightarrow> string \<Rightarrow> world \<Rightarrow> world" where
  "log_msg l m w = w\<lparr>log := log w @ [(l, m)]\<rparr>"

text \<open>\<open>get_db_connection()\<close>, line 42.\<close>

definition get_db_connection :: "env \<Rightarrow> world \<Rightarrow> (error + unit) \<times> world" where
  "get_db_connection e w =
     (case db_error e Connect of
        None \<Rightarrow> (Inr (), w)
      | Some msg \<Rightarrow>
          (Inl (HTTPException 500 ''Database connection failed''),
           log_msg ERROR (''Database connection error: '' @ msg) w))"

section \<open>Attendance submission\<close>

record attendance_request =
  req_date :: string
  req_status :: string

record attendance_response =
  message :: string
  resp_date :: date

text \<open>
  The statement \<open>INSERT INTO attendance (user_id, date, status) VALUES (...) ON DUPLICATE
  KEY UPDATE status = ..., marked_at = CURRENT_TIMESTAMP\<close> on a table whose unique key
  is (user_id, date): a row with the key is updated in place, otherwise a row is added.
  The new row's \<open>marked_at\<close> is the column's default, the current timestamp (the
  ``last-marked timestamp'' that the specification gives a record from its creation).
\<close>

definition upsert_attendance ::
  "int \<Rightarrow> date \<Rightarrow> string \<Rightarrow> timestamp \<Rightarrow> attendance_row list \<Rightarrow> attendance_row list" where
  "upsert_attendance uid d s ts rows =
     (if list_ex (\<lambda>r. user_id r = uid \<and> att_date r = d) rows
      then map (\<lambda>r. if user_id r = uid \<and> att_date r = d
                      then r\<lparr>att_status := s, marked_at := ts\<rparr> else r) rows
      else rows @ [\<lparr>user_id = uid, att_date = d, att_status = s, marked_at = ts\<rparr>])"

text \<open>
  Lines 195 to 212 of \<open>mark_attendance\<close> (``Insert/Update attendance''): connect,
  execute, commit. A \<open>mysql.connector.Error\<close> of execute or commit is rolled back and
  turned into a 500; nothing is stored then.
\<close>

definition insert_update_attendance ::
  "env \<Rightarrow> int \<Rightarrow> date \<Rightarrow> string \<Rightarrow> string \<Rightarrow> world \<Rightarrow> (error + attendance_response) \<times> world" where
  "insert_update_attendance e uid attendance_date status msg w =
     (case get_db_connection e w of
        (Inl err, w') \<Rightarrow> (Inl err, w')
      | (Inr _, w') \<Rightarrow>
          (case db_error e UpsertAttendance of
             Some x \<Rightarrow> (Inl (HTTPException 500 (''Failed to mark attendance: '' @ x)), w')
           | None \<Rightarrow>
               (case db_error e Commit of
                  Some x \<Rightarrow> (Inl (HTTPException 500 (''Failed to mark attendance: '' @ x)), w')
                | None \<Rightarrow>
                    (Inr \<lparr>message = msg, resp_date = attendance_date\<rparr>,
                     w'\<lparr>db := (db w')\<lparr>attendance :=
                        upsert_attendance uid attendance_date status (current_timestamp e)
                          (attendance (db w'))\<rparr>\<rparr>))))"

text \<open>\<open>mark_attendance(attendance, user_id)\<close>, line 175 (the parameter
  \<open>attendance\<close> is \<open>request\<close> here). The response's \<open>date\<close> is
  the string of the effective date; the model keeps the date itself. On the last day of
  the calendar \<open>today + timedelta(days=1)\<close> raises \<open>OverflowError\<close>, which nothing
  catches.\<close>

definition mark_attendance ::
  "env \<Rightarrow> attendance_request \<Rightarrow> int \<Rightarrow> world \<Rightarrow> (error + attendance_response) \<times> world" where
  "mark_attendance e request uid w =
     (case strptime e (req_date request) of
        None \<Rightarrow> (Inl (HTTPException 400 ''Invalid date format''), w)
      | Some attendance_date \<Rightarrow>
          if is_weekend attendance_date
          then (Inl (HTTPException 400 ''Cannot mark attendance on weekends''), w)
          else if attendance_date = today e \<and> is_after_cutoff_time (now e)
          then
            (case date_add_days (today e) 1 of
               None \<Rightarrow> (Inl (Uncaught ''date value out of range''), w)
             | Some tomorrow \<Rightarrow>
                 insert_update_attendance e uid tomorrow (req_status request)
                   ''Cutoff time passed. Attendance marked for tomorrow.'' w)
          else insert_update_attendance e uid attendance_date (req_status request)
                 ''Attendance marked successfully.'' w)"





section \<open>Notification dispatch\<close>

text \<open>Python's \<open>str\<close> of a non-negative integer.\<close>

definition digit_char :: "nat \<Rightarrow> char" where
  "digit_char n = char_of (48 + n)"

fun str_nat :: "nat \<Rightarrow> string" where
  "str_nat n = (if n < 10 then [digit_char n] else str_nat (n div 10) @ [digit_char (n mod 10)])"

definition newline :: string where
  "newline = [CHR 0x0A]"

text \<open>
  \<open>send_email_notification(recipient_email, subject, body)\<close>, line 337; \<open>k\<close> is the
  position of the call in the send loop, which the gateway's answer may depend on.
  \<open>not api_key\<close> holds for a missing and for an empty key. Every exception is caught
  and turned into \<open>False\<close>.
\<close>

definition send_email_notification ::
  "env \<Rightarrow> nat \<Rightarrow> string \<Rightarrow> string \<Rightarrow> string \<Rightarrow> world \<Rightarrow> bool \<times> world" where
  "send_email_notification e k recipient subject body w =
     (if brevo_api_key e = None \<or> brevo_api_key e = Some []
      then (False, log_msg WARNING ''Brevo API key not configured'' w)
      else
        (let w1 = w\<lparr>outbox := outbox w @ [(recipient, subject, body)]\<rparr> in
         case requests_post e k recipient subject body of
           RequestException x \<Rightarrow> (False, log_msg ERROR (''Error in Brevo email send: '' @ x) w1)
         | Response status_code text \<Rightarrow>
             if status_code \<in> {200, 201, 202}
             then (True, log_msg INFO (''Email sent to '' @ recipient) w1)
             else (False,
                   log_msg ERROR (''Failed to send email to '' @ recipient @ '': '' @ text) w1)))"

definition notification ::
  "string \<Rightarrow> string \<Rightarrow> nat \<Rightarrow> bool \<Rightarrow> notification_row" where
  "notification chef_email body office_count email_sent =
     \<lparr>n_type = ''daily_count'', recipient_email = chef_email, content = body,
      n_office_count = office_count, n_status = (if email_sent then ''sent'' else ''failed'')\<rparr>"

text \<open>
  The loop \<open>for chef in chef_results\<close>, lines 409 to 417. The inserted rows are
  pending in the open transaction until the commit after the loop; an INSERT that
  raises ends the loop with the exception (\<open>Inl\<close>).
\<close>

fun send_loop ::
  "env \<Rightarrow> string \<Rightarrow> string \<Rightarrow> nat \<Rightarrow> nat \<Rightarrow> string list \<Rightarrow> notification_row list \<Rightarrow> world
     \<Rightarrow> (string + notification_row list) \<times> world" where
  "send_loop e subject body office_count k [] pending w = (Inr pending, w)"
| "send_loop e subject body office_count k (chef_email # rest) pending w =
     (case send_email_notification e k chef_email subject body w of
        (email_sent, w') \<Rightarrow>
          (case db_error e (InsertNotification k) of
             Some x \<Rightarrow> (Inl x, w')
           | None \<Rightarrow>
               send_loop e subject body office_count (Suc k) rest
                 (pending @ [notification chef_email body office_count email_sent]) w'))"

definition count_office :: "date \<Rightarrow> attendance_row list \<Rightarrow> nat" where
  "count_office d rows = length (filter (\<lambda>r. att_date r = d \<and> att_status r = ''office'') rows)"

definition active_chefs :: "user list \<Rightarrow> string list" where
  "active_chefs us = map email (filter (\<lambda>u. role u = ''chef'' \<and> is_active u) us)"

definition subject_of :: "env \<Rightarrow> string" where
  "subject_of e = ''Daily Lunch Count - '' @ strftime_date e (today e)"

definition body_template :: "env \<Rightarrow> nat \<Rightarrow> string" where
  "body_template e office_count =
     newline @ ''Dear Chef,'' @ newline @ newline
     @ ''Today's office attendance count: '' @ str_nat office_count @ '' employees''
     @ newline @ newline
     @ ''Please prepare lunch accordingly.'' @ newline @ newline
     @ ''Date: '' @ strftime_date e (today e) @ newline
     @ ''Time: '' @ strftime_time e (now e) @ newline @ newline
     @ ''Best regards,'' @ newline
     @ ''Lunch Management System'' @ newline"

text \<open>
  The \<open>try\<close> block of \<open>send_chef_notification\<close>, lines 383 to 423; \<open>Inl x\<close> is an
  exception raised inside it. The connection does not autocommit: the rows inserted by
  the loop reach the table at \<open>connection.commit()\<close>, and are gone when the connection
  is closed without it.
\<close>

definition send_chef_notification_try :: "env \<Rightarrow> world \<Rightarrow> (string + unit) \<times> world" where
  "send_chef_notification_try e w =
     (case db_error e SelectOfficeCount of
        Some x \<Rightarrow> (Inl x, w)
      | None \<Rightarrow>
          (let office_count = count_office (today e) (attendance (db w)) in
           case db_error e SelectChefs of
             Some x \<Rightarrow> (Inl x, w)
           | None \<Rightarrow>
               (let chef_results = active_chefs (users (db w)) in
                if chef_results \<noteq> []
                then
                  (case send_loop e (subject_of e) (body_template e office_count) office_count 0
                          chef_results [] w of
                     (Inl x, w') \<Rightarrow> (Inl x, w')
                   | (Inr pending, w') \<Rightarrow>
                       (case db_error e Commit of
                          Some x \<Rightarrow> (Inl x, w')
                        | None \<Rightarrow>
                            (Inr (),
                             log_msg INFO
                               (''Chef notifications sent to '' @ str_nat (length chef_results)
                                  @ '' chef(s)'')
                               (w'\<lparr>db := (db w')\<lparr>notifications :=
                                     notifications (db w') @ pending\<rparr>\<rparr>))))
                else (Inr (), log_msg WARNING ''No active chefs found for notification'' w))))"

text \<open>\<open>send_chef_notification()\<close>, line 372. The connection is opened outside the
  \<open>try\<close>: its failure leaves the function as an exception; every exception inside
  the \<open>try\<close> is logged and swallowed.\<close>

definition send_chef_notification :: "env \<Rightarrow> world \<Rightarrow> (error + unit) \<times> world" where
  "send_chef_notification e w =
     (if is_weekend (today e)
      then (Inr (), log_msg INFO ''Skipping chef notification - weekend'' w)
      else
        (case get_db_connection e w of
           (Inl err, w') \<Rightarrow> (Inl err, w')
         | (Inr _, w') \<Rightarrow>
             (case send_chef_notification_try e w' of
                (Inl x, w'') \<Rightarrow>
                  (Inr (), log_msg ERROR (''Failed to send chef notifications: '' @ x) w'')
              | (Inr _, w'') \<Rightarrow> (Inr (), w''))))"

section \<open>Notions used in the statements\<close>

text \<open>The time of day of a datetime, ordered lexicographically, and the cutoff that
  \<open>is_after_cutoff_time\<close> is configured with: 21:30:00.000000.\<close>

definition time_of_day :: "datetime \<Rightarrow> nat \<times> nat \<times> nat \<times> nat" where
  "time_of_day t = (hour t, minute t, second t, microsecond t)"

definition cutoff_time_of_day :: "nat \<times> nat \<times> nat \<times> nat" where
  "cutoff_time_of_day = (21, 30, 0, 0)"

text \<open>The key of an attendance row, and the table's unique-key constraint.\<close>

definition row_key :: "attendance_row \<Rightarrow> int \<times> date" where
  "row_key r = (user_id r, att_date r)"







text \<open>The warnings among the log records.\<close>

definition warnings :: "log_record list \<Rightarrow> log_record list" where
  "warnings rs = filter (\<lambda>r. fst r = WARNING) rs"

text \<open>The key is configured when \<open>not api_key\<close> is false.\<close>

definition key_configured :: "env \<Rightarrow> bool" where
  "key_configured e \<longleftrightarrow> brevo_api_key e \<noteq> None \<and> brevo_api_key e \<noteq> Some []"

text \<open>The outcome of the \<open>k\<close>-th send of a run, as \<open>send_email_notification\<close>
  decides it from the key and the gateway's answer.\<close>

definition send_ok :: "env \<Rightarrow> string \<Rightarrow> string \<Rightarrow> nat \<Rightarrow> string \<Rightarrow> bool" where
  "send_ok e subject body k recipient \<longleftrightarrow>
     key_configured e \<and>
     (case requests_post e k recipient subject body of
        Response status_code text \<Rightarrow> status_code \<in> {200, 201, 202}
      | RequestException x \<Rightarrow> False)"

text \<open>The record that the \<open>k\<close>-th send of a run writes to the log.\<close>

definition send_log :: "env \<Rightarrow> string \<Rightarrow> string \<Rightarrow> nat \<Rightarrow> string \<Rightarrow> log_record" where
  "send_log e subject body k recipient =
     (if \<not> key_configured e then (WARNING, ''Brevo API key not configured'')
      else
        (case requests_post e k recipient subject body of
           RequestException x \<Rightarrow> (ERROR, ''Error in Brevo email send: '' @ x)
         | Response status_code text \<Rightarrow>
             if status_code \<in> {200, 201, 202}
             then (INFO, ''Email sent to '' @ recipient)
             else (ERROR, ''Failed to send email to '' @ recipient @ '': '' @ text)))"

text \<open>The world after the sends to \<open>chefs\<close>, numbered from \<open>k\<close>: one log record for
  each, and one posted request for each when the key is configured.\<close>

definition after_sends :: "env \<Rightarrow> string \<Rightarrow> string \<Rightarrow> nat \<Rightarrow> string list \<Rightarrow> world \<Rightarrow> world" where
  "after_sends e subject body k chefs w =
     w\<lparr>log := log w @ map (\<lambda>(j, c). send_log e subject body j c) (enumerate k chefs),
       outbox := outbox w
          @ (if key_configured e then map (\<lambda>c. (c, subject, body)) chefs else [])\<rparr>"

text \<open>The rows that the loop inserts for \<open>chefs\<close>, numbered from \<open>k\<close>.\<close>

definition entries ::
  "env \<Rightarrow> string \<Rightarrow> string \<Rightarrow> nat \<Rightarrow> nat \<Rightarrow> string list \<Rightarrow> notification_row list" where
  "entries e subject body cnt k chefs =
     map (\<lambda>(j, c). notification c body cnt (send_ok e subject body j c)) (enumerate k chefs)"

section \<open>Concrete scenarios\<close>

text \<open>The dates of the scenarios, as the parsers read them: Saturday 2024-06-08,
  Monday 2024-06-10, Tuesday 2024-06-11, Friday 2024-06-14, Saturday 2024-06-15.\<close>

definition calendar :: "string \<Rightarrow> date option" where
  "calendar =
     [''2024-06-08'' \<mapsto> ymd2ord 2024 6 8, ''2024-06-10'' \<mapsto> ymd2ord 2024 6 10,
      ''2024-06-11'' \<mapsto> ymd2ord 2024 6 11, ''2024-06-14'' \<mapsto> ymd2ord 2024 6 14,
      ''2024-06-15'' \<mapsto> ymd2ord 2024 6 15]"

definition at_time :: "date \<Rightarrow> nat \<Rightarrow> nat \<Rightarrow> datetime" where
  "at_time d h m = \<lparr>dt_date = d, hour = h, minute = m, second = 0, microsecond = 0\<rparr>"

text \<open>Monday 2024-06-10 at 21:45, the key configured, the gateway accepting every
  message, the database answering every statement.\<close>

definition monday_evening :: env where
  "monday_evening =
     \<lparr>today = ymd2ord 2024 6 10, now = at_time (ymd2ord 2024 6 10) 21 45,
      strptime = calendar, current_timestamp = 1718055900, mysql_date = calendar,
      brevo_api_key = Some ''xkeysib-1'',
      requests_post = (\<lambda>k recipient subject body. Response 201 ''{}''),
      db_error = (\<lambda>_. None),
      strftime_date = (\<lambda>_. ''June 10, 2024''), strftime_time = (\<lambda>_. ''09:45 PM'')\<rparr>"

definition monday_morning :: env where
  "monday_morning =
     monday_evening\<lparr>now := at_time (ymd2ord 2024 6 10) 9 0,
       strftime_time := (\<lambda>_. ''09:00 AM'')\<rparr>"

definition friday_evening :: env where
  "friday_evening =
     monday_evening\<lparr>today := ymd2ord 2024 6 14, now := at_time (ymd2ord 2024 6 14) 21 45,
       strftime_date := (\<lambda>_. ''June 14, 2024'')\<rparr>"

definition saturday_evening :: env where
  "saturday_evening =
     monday_evening\<lparr>today := ymd2ord 2024 6 8, now := at_time (ymd2ord 2024 6 8) 21 45,
       strftime_date := (\<lambda>_. ''June 08, 2024'')\<rparr>"

definition office_request :: "string \<Rightarrow> attendance_request" where
  "office_request d = \<lparr>req_date = d, req_status = ''office''\<rparr>"

definition empty_world :: world where
  "empty_world = \<lparr>db = \<lparr>users = [], attendance = [], notifications = []\<rparr>, log = [], outbox = []\<rparr>"

definition chef :: "string \<Rightarrow> user" where
  "chef addr = \<lparr>email = addr, role = ''chef'', is_active = True\<rparr>"

definition kitchen :: "user list \<Rightarrow> world" where
  "kitchen us = empty_world\<lparr>db := (db empty_world)\<lparr>users := us\<rparr>\<rparr>"

text \<open>Monday morning runs of the dispatcher: the gateway refusing one recipient, the
  key missing, the second INSERT of the run failing.\<close>

definition one_fails :: env where
  "one_fails =
     monday_morning\<lparr>requests_post :=
       (\<lambda>k recipient subject body.
          if recipient = ''b@kitchen'' then Response 500 ''unavailable'' else Response 201 ''{}'')\<rparr>"

definition no_key :: env where
  "no_key = monday_morning\<lparr>brevo_api_key := None\<rparr>"

definition insert_fault :: env where
  "insert_fault =
     monday_morning\<lparr>db_error :=
       (\<lambda>op. if op = InsertNotification 1 then Some ''server has gone away'' else None)\<rparr>"

definition three_chefs :: world where
  "three_chefs =
     empty_world\<lparr>db :=
       \<lparr>users =
          [chef ''a@kitchen'',
           \<lparr>email = ''e@office'', role = ''employee'', is_active = True\<rparr>,
           chef ''b@kitchen'',
           \<lparr>email = ''z@kitchen'', role = ''chef'', is_active = False\<rparr>,
           chef ''c@kitchen''],
        attendance =
          [\<lparr>user_id = 7, att_date = ymd2ord 2024 6 10, att_status = ''office'',
            marked_at = 1718000000\<rparr>,
           \<lparr>user_id = 8, att_date = ymd2ord 2024 6 10, att_status = ''home'',
            marked_at = 1718000100\<rparr>],
        notifications = []\<rparr>\<rparr>"

text \<open>Friday 9999-12-31, the last day of the calendar, at 21:45.\<close>

definition last_day :: env where
  "last_day =
     monday_evening\<lparr>today := ymd2ord 9999 12 31, now := at_time (ymd2ord 9999 12 31) 21 45,
       strptime := [''9999-12-31'' \<mapsto> ymd2ord 9999 12 31],
       strftime_date := (\<lambda>_. ''December 31, 9999'')\<rparr>"

text \<open>Runs of the dispatcher without a key: the first INSERT failing, the connection
  failing, and a run on Saturday 2024-06-08.\<close>

definition no_key_insert_fault :: env where
  "no_key_insert_fault =
     no_key\<lparr>db_error :=
       (\<lambda>op. if op = InsertNotification 0 then Some ''server has gone away'' else None)\<rparr>"

definition no_key_connect_fault :: env where
  "no_key_connect_fault =
     no_key\<lparr>db_error := (\<lambda>op. if op = Connect then Some ''connection refused'' else None)\<rparr>"

definition saturday_no_key :: env where
  "saturday_no_key = saturday_evening\<lparr>brevo_api_key := None\<rparr>"





section \<open>Basic facts\<close>

lemma ymd2ord_june_2024: "ymd2ord 2024 6 day = 739037 + day"
  by (simp add: ymd2ord_def days_before_year_def days_before_month_def DAYS_BEFORE_MONTH_def
      is_leap_def)

lemma ymd2ord_last_day: "ymd2ord 9999 12 31 = MAXORDINAL"
  by (simp add: ymd2ord_def days_before_year_def days_before_month_def DAYS_BEFORE_MONTH_def
      is_leap_def MAXORDINAL_def)

lemma date_add_one_day:
  "1 \<le> d \<Longrightarrow> d < MAXORDINAL \<Longrightarrow> date_add_days d 1 = Some (d + 1)"
  by (simp add: date_add_days_def)

lemmas scenario_defs =
  monday_evening_def monday_morning_def friday_evening_def saturday_evening_def
  calendar_def at_time_def office_request_def empty_world_def chef_def kitchen_def
  ymd2ord_june_2024

lemma is_weekend_iff: "is_weekend d \<longleftrightarrow> weekday d = 5 \<or> weekday d = 6"
  unfolding is_weekend_def weekday_def by presburger

lemma is_after_cutoff_time_iff:
  "is_after_cutoff_time t \<longleftrightarrow> cutoff_time_of_day < time_of_day t"
  by (auto simp: is_after_cutoff_time_def datetime_gt_def datetime_tuple_def
      cutoff_time_of_day_def time_of_day_def less_prod_def)

lemma insert_update_attendance_ok:
  assumes "db_error e Connect = None" "db_error e UpsertAttendance = None"
    "db_error e Commit = None"
  shows "insert_update_attendance e uid d s m w =
           (Inr \<lparr>message = m, resp_date = d\<rparr>,
            w\<lparr>db := (db w)\<lparr>attendance :=
                 upsert_attendance uid d s (current_timestamp e) (attendance (db w))\<rparr>\<rparr>)"
  using assms by (simp add: insert_update_attendance_def get_db_connection_def)

subsection \<open>The upsert statement\<close>





lemma filter_key_absent:
  "(u, d) \<notin> set (map row_key rows) \<Longrightarrow> filter (\<lambda>r. row_key r = (u, d)) rows = []"
  by (induction rows) auto












subsection \<open>The send loop and the dispatcher\<close>

lemma send_email_notification_eq:
  "send_email_notification e k c subject body w =
     (send_ok e subject body k c, after_sends e subject body k [c] w)"
  by (auto simp: send_email_notification_def send_ok_def after_sends_def send_log_def
      key_configured_def log_msg_def Let_def split: post_result.splits)

lemma after_sends_Nil: "after_sends e subject body k [] w = w"
  by (simp add: after_sends_def)

lemma after_sends_Cons:
  "after_sends e subject body (Suc k) rest (after_sends e subject body k [c] w)
     = after_sends e subject body k (c # rest) w"
  by (simp add: after_sends_def)

lemma db_after_sends: "db (after_sends e subject body k chefs w) = db w"
  by (simp add: after_sends_def)

lemma send_loop_ok:
  assumes "\<forall>j<length chefs. db_error e (InsertNotification (k + j)) = None"
  shows "send_loop e subject body cnt k chefs pending w =
           (Inr (pending @ entries e subject body cnt k chefs),
            after_sends e subject body k chefs w)"
  using assms
proof (induction chefs arbitrary: k pending w)
  case Nil
  show ?case by (simp add: entries_def after_sends_Nil)
next
  case (Cons c rest)
  have here: "db_error e (InsertNotification k) = None"
    using Cons.prems by force
  have later: "\<forall>j<length rest. db_error e (InsertNotification (Suc k + j)) = None"
    using Cons.prems by force
  show ?case
    by (simp add: send_email_notification_eq here Cons.IH [OF later] after_sends_Cons
        entries_def)
qed

lemma send_loop_fault:
  assumes "m < length chefs"
    and "\<forall>j<m. db_error e (InsertNotification (k + j)) = None"
    and "db_error e (InsertNotification (k + m)) = Some x"
  shows "send_loop e subject body cnt k chefs pending w =
           (Inl x, after_sends e subject body k (take (Suc m) chefs) w)"
  using assms
proof (induction chefs arbitrary: k m pending w)
  case Nil
  then show ?case by simp
next
  case (Cons c rest)
  show ?case
  proof (cases m)
    case 0
    with Cons.prems show ?thesis
      by (simp add: send_email_notification_eq)
  next
    case (Suc m')
    have here: "db_error e (InsertNotification k) = None"
      using Cons.prems(2) Suc by force
    have len: "m' < length rest" using Cons.prems(1) Suc by simp
    have before: "\<forall>j<m'. db_error e (InsertNotification (Suc k + j)) = None"
      using Cons.prems(2) Suc by force
    have at: "db_error e (InsertNotification (Suc k + m')) = Some x"
      using Cons.prems(3) Suc by simp
    show ?thesis
      by (simp add: send_email_notification_eq here Suc
          Cons.IH [OF len before at] after_sends_Cons)
  qed
qed

lemma str_nat_digit: "n < 10 \<Longrightarrow> str_nat n = [digit_char n]"
  by simp

declare str_nat.simps [simp del]

lemma send_loop_db: "db (snd (send_loop e subject body cnt k chefs pending w)) = db w"
  by (induction chefs arbitrary: k pending w)
     (auto simp: send_email_notification_eq db_after_sends split: option.splits)

lemma send_loop_pending:
  "send_loop e subject body cnt k chefs pending w = (Inr p, w') \<Longrightarrow>
     \<exists>new. p = pending @ new \<and> (\<forall>n\<in>set new. n_office_count n = cnt \<and> content n = body)"
proof (induction chefs arbitrary: k pending w)
  case Nil
  then show ?case by simp
next
  case (Cons c rest)
  from Cons.prems obtain ok where
    run: "send_loop e subject body cnt (Suc k) rest (pending @ [notification c body cnt ok])
            (after_sends e subject body k [c] w) = (Inr p, w')"
    by (auto simp: send_email_notification_eq split: option.splits)
  from Cons.IH [OF run] obtain new where
    "p = (pending @ [notification c body cnt ok]) @ new"
    "\<forall>n\<in>set new. n_office_count n = cnt \<and> content n = body" by blast
  then have "p = pending @ (notification c body cnt ok # new)
      \<and> (\<forall>n\<in>set (notification c body cnt ok # new). n_office_count n = cnt \<and> content n = body)"
    by (simp add: notification_def)
  then show ?case by blast
qed

lemma send_chef_notification_ok:
  assumes "\<not> is_weekend (today e)" and "\<forall>op. db_error e op = None"
    and "active_chefs (users (db w)) \<noteq> []"
  shows "send_chef_notification e w =
     (Inr (),
      log_msg INFO (''Chef notifications sent to ''
           @ str_nat (length (active_chefs (users (db w)))) @ '' chef(s)'')
       ((after_sends e (subject_of e)
           (body_template e (count_office (today e) (attendance (db w)))) 0
           (active_chefs (users (db w))) w)
        \<lparr>db := (db w)\<lparr>notifications := notifications (db w)
            @ entries e (subject_of e)
                (body_template e (count_office (today e) (attendance (db w))))
                (count_office (today e) (attendance (db w))) 0
                (active_chefs (users (db w)))\<rparr>\<rparr>))"
  using assms
  by (simp add: send_chef_notification_def get_db_connection_def send_chef_notification_try_def
      send_loop_ok db_after_sends Let_def)

lemma send_chef_notification_no_chefs:
  assumes "\<not> is_weekend (today e)" and "db_error e Connect = None"
    and "db_error e SelectOfficeCount = None" and "db_error e SelectChefs = None"
    and "active_chefs (users (db w)) = []"
  shows "send_chef_notification e w =
     (Inr (), log_msg WARNING ''No active chefs found for notification'' w)"
  using assms
  by (simp add: send_chef_notification_def get_db_connection_def send_chef_notification_try_def
      Let_def)

lemma sent_iff: "n_status (notification c body cnt ok) = ''sent'' \<longleftrightarrow> ok"
  by (simp add: notification_def)

lemma failed_iff: "n_status (notification c body cnt ok) = ''failed'' \<longleftrightarrow> \<not> ok"
  by (simp add: notification_def)

subsection \<open>The scenarios\<close>

lemma monday_not_weekend:
  "weekday (today monday_morning) \<noteq> 5" "weekday (today monday_morning) \<noteq> 6"
  by (simp_all add: scenario_defs weekday_def)

lemma three_chefs_active:
  "active_chefs (users (db three_chefs)) = [''a@kitchen'', ''b@kitchen'', ''c@kitchen'']"
  by (simp add: three_chefs_def active_chefs_def scenario_defs)

lemma three_chefs_fields:
  "log three_chefs = []" "outbox three_chefs = []" "notifications (db three_chefs) = []"
  by (simp_all add: three_chefs_def empty_world_def)

lemma three_chefs_count: "count_office (today one_fails) (attendance (db three_chefs)) = 1"
  by (simp add: count_office_def three_chefs_def one_fails_def scenario_defs)

lemma one_fails_run_length:
  "length (notifications (db (snd (send_chef_notification one_fails three_chefs)))) = 3"
proof -
  have wd: "\<not> is_weekend (today one_fails)"
    using monday_not_weekend by (simp add: one_fails_def is_weekend_iff)
  have ok: "\<forall>op. db_error one_fails op = None"
    by (simp add: one_fails_def scenario_defs)
  have ne: "active_chefs (users (db three_chefs)) \<noteq> []" by (simp add: three_chefs_active)
  show ?thesis
    by (simp add: send_chef_notification_ok [OF wd ok ne] log_msg_def after_sends_def
        entries_def three_chefs_active three_chefs_fields)
qed


section \<open>Weekend submissions are rejected\<close>

text \<open>
  C3. For every requested date whose weekday is Saturday (5) or Sunday (6), whatever
  the clock, the gateway and the database do, the submission fails with the weekend
  rejection (HTTP 400, ``Cannot mark attendance on weekends'') and the world, in
  particular the attendance table, is left exactly as it was.
\<close>

theorem weekend_rejected:
  assumes "strptime e (req_date request) = Some D"
    and "weekday D = 5 \<or> weekday D = 6"
  shows "mark_attendance e request uid w =
           (Inl (HTTPException 400 ''Cannot mark attendance on weekends''), w)"
  using assms by (auto simp: mark_attendance_def is_weekend_def)

text \<open>Saturday 2024-06-08 at 21:45, a request for that day.\<close>

theorem weekend_rejected_witness:
  "strptime saturday_evening (req_date (office_request ''2024-06-08'')) = Some (ymd2ord 2024 6 8)
   \<and> weekday (ymd2ord 2024 6 8) = 5
   \<and> mark_attendance saturday_evening (office_request ''2024-06-08'') 7 empty_world =
       (Inl (HTTPException 400 ''Cannot mark attendance on weekends''), empty_world)"
proof -
  have p: "strptime saturday_evening (req_date (office_request ''2024-06-08''))
             = Some (ymd2ord 2024 6 8)"
    by (simp add: scenario_defs)
  have s: "weekday (ymd2ord 2024 6 8) = 5"
    by (simp add: scenario_defs weekday_def)
  from weekend_rejected [OF p disjI1 [OF s], of 7 empty_world] p s show ?thesis by simp
qed

section \<open>Cutoff rollover\<close>

text \<open>
  C1, as the code has it. For every submission whose requested date is not a Saturday
  or Sunday and is earlier than the last day of the calendar (9999-12-31), equals today,
  and arrives when the time of day is strictly after the cutoff 21:30, the effective
  date is the requested date plus one day and the message is the rollover message:
  the insert/update block is run with them, and when the database answers, they are
  what the caller receives. (A submission for a Saturday or Sunday is rejected before
  the cutoff is looked at; on the last day of the calendar the next day does not exist.)
\<close>

theorem cutoff_rollover:
  assumes "strptime e (req_date request) = Some D"
    and "weekday D \<noteq> 5" and "weekday D \<noteq> 6"
    and "1 \<le> D" and "D < MAXORDINAL"
    and "D = today e"
    and "cutoff_time_of_day < time_of_day (now e)"
  shows "mark_attendance e request uid w =
           insert_update_attendance e uid (D + 1) (req_status request)
             ''Cutoff time passed. Attendance marked for tomorrow.'' w
         \<and> (db_error e Connect = None \<and> db_error e UpsertAttendance = None
              \<and> db_error e Commit = None \<longrightarrow>
            mark_attendance e request uid w =
              (Inr \<lparr>message = ''Cutoff time passed. Attendance marked for tomorrow.'',
                    resp_date = D + 1\<rparr>,
               w\<lparr>db := (db w)\<lparr>attendance :=
                    upsert_attendance uid (D + 1) (req_status request) (current_timestamp e)
                      (attendance (db w))\<rparr>\<rparr>))"
proof -
  have "\<not> is_weekend D" using assms(2,3) by (simp add: is_weekend_iff)
  moreover have "is_after_cutoff_time (now e)"
    using assms(7) by (simp add: is_after_cutoff_time_iff)
  moreover have "date_add_days (today e) 1 = Some (D + 1)"
    using assms(4,5,6) by (simp add: date_add_one_day)
  ultimately have *: "mark_attendance e request uid w =
           insert_update_attendance e uid (D + 1) (req_status request)
             ''Cutoff time passed. Attendance marked for tomorrow.'' w"
    using assms(1,6) by (simp add: mark_attendance_def)
  show ?thesis unfolding * by (simp add: insert_update_attendance_ok)
qed

text \<open>The scenario of the specification: cutoff 21:30, now 21:45 on Monday 2024-06-10,
  a request for 2024-06-10 with status office resolves to 2024-06-11 with rollover.\<close>

theorem cutoff_rollover_witness:
  "mark_attendance monday_evening (office_request ''2024-06-10'') 7 empty_world =
     (Inr \<lparr>message = ''Cutoff time passed. Attendance marked for tomorrow.'',
           resp_date = ymd2ord 2024 6 11\<rparr>,
      empty_world\<lparr>db := (db empty_world)\<lparr>attendance :=
         [\<lparr>user_id = 7, att_date = ymd2ord 2024 6 11, att_status = ''office'',
           marked_at = 1718055900\<rparr>]\<rparr>\<rparr>)
   \<and> weekday (ymd2ord 2024 6 10) = 0
   \<and> now monday_evening = at_time (ymd2ord 2024 6 10) 21 45"
proof -
  have p: "strptime monday_evening (req_date (office_request ''2024-06-10''))
             = Some (ymd2ord 2024 6 10)"
    by (simp add: scenario_defs)
  have wd: "weekday (ymd2ord 2024 6 10) = 0" by (simp add: scenario_defs weekday_def)
  have lo: "1 \<le> ymd2ord 2024 6 10" and hi: "ymd2ord 2024 6 10 < MAXORDINAL"
    by (simp_all add: scenario_defs MAXORDINAL_def)
  have t: "ymd2ord 2024 6 10 = today monday_evening" by (simp add: scenario_defs)
  have c: "cutoff_time_of_day < time_of_day (now monday_evening)"
    by (simp add: scenario_defs cutoff_time_of_day_def time_of_day_def less_prod_def)
  have ok: "db_error monday_evening Connect = None
              \<and> db_error monday_evening UpsertAttendance = None
              \<and> db_error monday_evening Commit = None"
    by (simp add: scenario_defs)
  from cutoff_rollover [OF p _ _ lo hi t c, of 7 empty_world] wd ok
  show ?thesis
    by (simp add: scenario_defs upsert_attendance_def insert_update_attendance_def
        get_db_connection_def)
qed

text \<open>
  Without the two restrictions the statement fails. On Saturday 2024-06-08 at 21:45 a
  request for that same day equals today and is after the cutoff, and is rejected
  instead of being rolled over. On Friday 9999-12-31 at 21:45 a request for that day
  passes the weekend check, equals today and is after the cutoff, and the handler ends
  with the uncaught \<open>OverflowError\<close> of \<open>today + timedelta(days=1)\<close>.
\<close>

theorem rollover_counterexample:
  "strptime saturday_evening (req_date (office_request ''2024-06-08''))
     = Some (today saturday_evening)
   \<and> cutoff_time_of_day < time_of_day (now saturday_evening)
   \<and> mark_attendance saturday_evening (office_request ''2024-06-08'') 7 empty_world
       = (Inl (HTTPException 400 ''Cannot mark attendance on weekends''), empty_world)
   \<and> strptime last_day (req_date (office_request ''9999-12-31'')) = Some (today last_day)
   \<and> today last_day = MAXORDINAL
   \<and> weekday (today last_day) = 4
   \<and> cutoff_time_of_day < time_of_day (now last_day)
   \<and> mark_attendance last_day (office_request ''9999-12-31'') 7 empty_world
       = (Inl (Uncaught ''date value out of range''), empty_world)"
  by (simp add: last_day_def ymd2ord_last_day scenario_defs mark_attendance_def is_weekend_def
      weekday_def cutoff_time_of_day_def time_of_day_def less_prod_def
      is_after_cutoff_time_def datetime_gt_def datetime_tuple_def date_add_days_def
      MAXORDINAL_def)

text \<open>
  C4. For every submission whose requested date is not a Saturday or Sunday, and where
  the requested date is not today or the time of day is at most the cutoff 21:30, the
  effective date is the requested date and the message is the plain one (no rollover):
  the insert/update block is run with them, and when the database answers, the caller
  receives them and the record is stored under the requested date.
\<close>

theorem no_rollover:
  assumes "strptime e (req_date request) = Some D"
    and "weekday D \<noteq> 5" and "weekday D \<noteq> 6"
    and "D \<noteq> today e \<or> time_of_day (now e) \<le> cutoff_time_of_day"
  shows "mark_attendance e request uid w =
           insert_update_attendance e uid D (req_status request)
             ''Attendance marked successfully.'' w
         \<and> (db_error e Connect = None \<and> db_error e UpsertAttendance = None
              \<and> db_error e Commit = None \<longrightarrow>
            mark_attendance e request uid w =
              (Inr \<lparr>message = ''Attendance marked successfully.'', resp_date = D\<rparr>,
               w\<lparr>db := (db w)\<lparr>attendance :=
                    upsert_attendance uid D (req_status request) (current_timestamp e)
                      (attendance (db w))\<rparr>\<rparr>))"
proof -
  have "\<not> is_weekend D" using assms(2,3) by (simp add: is_weekend_iff)
  moreover have "\<not> (D = today e \<and> is_after_cutoff_time (now e))"
    using assms(4) by (auto simp: is_after_cutoff_time_iff)
  ultimately have *: "mark_attendance e request uid w =
           insert_update_attendance e uid D (req_status request)
             ''Attendance marked successfully.'' w"
    using assms(1) by (auto simp: mark_attendance_def)
  show ?thesis unfolding * by (simp add: insert_update_attendance_ok)
qed

text \<open>Monday 2024-06-10 at 09:00, a request for that day; and Monday at 21:45, a
  request for Tuesday 2024-06-11.\<close>

theorem no_rollover_witness:
  "mark_attendance monday_morning (office_request ''2024-06-10'') 7 empty_world =
     (Inr \<lparr>message = ''Attendance marked successfully.'', resp_date = ymd2ord 2024 6 10\<rparr>,
      empty_world\<lparr>db := (db empty_world)\<lparr>attendance :=
         [\<lparr>user_id = 7, att_date = ymd2ord 2024 6 10, att_status = ''office'',
           marked_at = 1718055900\<rparr>]\<rparr>\<rparr>)
   \<and> today monday_morning = ymd2ord 2024 6 10
   \<and> time_of_day (now monday_morning) = (9, 0, 0, 0)
   \<and> mark_attendance monday_evening (office_request ''2024-06-11'') 7 empty_world =
     (Inr \<lparr>message = ''Attendance marked successfully.'', resp_date = ymd2ord 2024 6 11\<rparr>,
      empty_world\<lparr>db := (db empty_world)\<lparr>attendance :=
         [\<lparr>user_id = 7, att_date = ymd2ord 2024 6 11, att_status = ''office'',
           marked_at = 1718055900\<rparr>]\<rparr>\<rparr>)
   \<and> today monday_evening = ymd2ord 2024 6 10
   \<and> time_of_day (now monday_evening) = (21, 45, 0, 0)"
proof -
  have p: "strptime monday_morning (req_date (office_request ''2024-06-10''))
             = Some (ymd2ord 2024 6 10)"
    "strptime monday_evening (req_date (office_request ''2024-06-11''))
             = Some (ymd2ord 2024 6 11)"
    by (simp_all add: scenario_defs)
  have wd: "weekday (ymd2ord 2024 6 10) \<noteq> 5" "weekday (ymd2ord 2024 6 10) \<noteq> 6"
    "weekday (ymd2ord 2024 6 11) \<noteq> 5" "weekday (ymd2ord 2024 6 11) \<noteq> 6"
    by (simp_all add: scenario_defs weekday_def)
  have c: "ymd2ord 2024 6 10 \<noteq> today monday_morning
             \<or> time_of_day (now monday_morning) \<le> cutoff_time_of_day"
    by (simp add: scenario_defs cutoff_time_of_day_def time_of_day_def less_eq_prod_def)
  have c': "ymd2ord 2024 6 11 \<noteq> today monday_evening
             \<or> time_of_day (now monday_evening) \<le> cutoff_time_of_day"
    by (simp add: scenario_defs)
  from no_rollover [OF p(1) wd(1,2) c, of 7 empty_world]
       no_rollover [OF p(2) wd(3,4) c', of 7 empty_world]
  show ?thesis
    by (simp add: scenario_defs upsert_attendance_def insert_update_attendance_def
        get_db_connection_def time_of_day_def)
qed

section \<open>Records on weekend dates\<close>

text \<open>
  C2. The claim is that no record is ever stored for a Saturday or Sunday, rollover
  included. The weekend check of \<open>mark_attendance\<close> looks at the requested date only,
  before the rollover: on Friday 2024-06-14 at 21:45, a request for that Friday is
  accepted, rolled over, and stored under Saturday 2024-06-15.
\<close>

theorem friday_rollover_stores_saturday:
  "weekday (today friday_evening) = 4
   \<and> mark_attendance friday_evening (office_request ''2024-06-14'') 7 empty_world =
     (Inr \<lparr>message = ''Cutoff time passed. Attendance marked for tomorrow.'',
           resp_date = ymd2ord 2024 6 15\<rparr>,
      empty_world\<lparr>db := (db empty_world)\<lparr>attendance :=
         [\<lparr>user_id = 7, att_date = ymd2ord 2024 6 15, att_status = ''office'',
           marked_at = 1718055900\<rparr>]\<rparr>\<rparr>)
   \<and> weekday (ymd2ord 2024 6 15) = 5"
  by (simp add: scenario_defs mark_attendance_def is_weekend_def weekday_def
      is_after_cutoff_time_def datetime_gt_def datetime_tuple_def less_prod_def
      date_add_days_def MAXORDINAL_def upsert_attendance_def insert_update_attendance_def
      get_db_connection_def)

section \<open>Repeated upserts\<close>



section \<open>The attendance query\<close>



section \<open>Dispatch: one attempt and one entry for each recipient\<close>

text \<open>
  C6, as the code has it. In a dispatch run on a working day in which no database
  operation fails, the run
  completes without an error and appends to the notification table exactly one entry for
  each active chef, in the order of the list; the status of the entry of the \<open>k\<close>-th
  chef is ``sent'' when the send to this chef succeeded and ``failed'' otherwise, whatever
  happened to the other sends. When the key is configured exactly one request is posted
  for each chef. The numbers of ``sent'' and ``failed'' entries are the numbers of
  succeeded and failed sends.
\<close>

theorem dispatch_isolation:
  fixes e w
  defines "chefs \<equiv> active_chefs (users (db w))"
    and "cnt \<equiv> count_office (today e) (attendance (db w))"
  defines "new \<equiv> map (\<lambda>(k, c). notification c (body_template e cnt) cnt
                      (send_ok e (subject_of e) (body_template e cnt) k c)) (enumerate 0 chefs)"
  assumes "weekday (today e) \<noteq> 5" and "weekday (today e) \<noteq> 6"
    and "\<forall>op. db_error e op = None"
  shows "fst (send_chef_notification e w) = Inr ()
     \<and> notifications (db (snd (send_chef_notification e w))) = notifications (db w) @ new
     \<and> map recipient_email new = chefs
     \<and> (key_configured e \<longrightarrow>
          outbox (snd (send_chef_notification e w))
            = outbox w @ map (\<lambda>c. (c, subject_of e, body_template e cnt)) chefs)
     \<and> length (filter (\<lambda>n. n_status n = ''sent'') new)
          = length (filter (\<lambda>(k, c). send_ok e (subject_of e) (body_template e cnt) k c)
              (enumerate 0 chefs))
     \<and> length (filter (\<lambda>n. n_status n = ''failed'') new)
          = length (filter (\<lambda>(k, c). \<not> send_ok e (subject_of e) (body_template e cnt) k c)
              (enumerate 0 chefs))"
proof -
  have wd: "\<not> is_weekend (today e)" using assms(4,5) by (simp add: is_weekend_iff)
  have rcpt: "map recipient_email new = chefs"
    unfolding new_def by (simp add: notification_def case_prod_unfold comp_def)
  have sent: "length (filter (\<lambda>n. n_status n = ''sent'') new)
          = length (filter (\<lambda>(k, c). send_ok e (subject_of e) (body_template e cnt) k c)
              (enumerate 0 chefs))"
    unfolding new_def by (simp add: filter_map comp_def case_prod_unfold sent_iff)
  have failed: "length (filter (\<lambda>n. n_status n = ''failed'') new)
          = length (filter (\<lambda>(k, c). \<not> send_ok e (subject_of e) (body_template e cnt) k c)
              (enumerate 0 chefs))"
    unfolding new_def by (simp add: filter_map comp_def case_prod_unfold failed_iff)
  have run: "fst (send_chef_notification e w) = Inr ()
     \<and> notifications (db (snd (send_chef_notification e w))) = notifications (db w) @ new
     \<and> (key_configured e \<longrightarrow>
          outbox (snd (send_chef_notification e w))
            = outbox w @ map (\<lambda>c. (c, subject_of e, body_template e cnt)) chefs)"
  proof (cases "chefs = []")
    case True
    then have "send_chef_notification e w =
        (Inr (), log_msg WARNING ''No active chefs found for notification'' w)"
      using wd assms(6) unfolding chefs_def by (simp add: send_chef_notification_no_chefs)
    with True show ?thesis by (simp add: new_def log_msg_def)
  next
    case False
    then show ?thesis
      using send_chef_notification_ok [OF wd assms(6)] unfolding chefs_def new_def cnt_def
      by (simp add: log_msg_def after_sends_def entries_def)
  qed
  with rcpt sent failed show ?thesis by blast
qed

text \<open>Three active chefs (beside an employee and an inactive chef), the gateway refusing
  one of them: the run completes with two ``sent'' entries and one ``failed'' entry.\<close>

theorem dispatch_isolation_witness:
  "fst (send_chef_notification one_fails three_chefs) = Inr ()
   \<and> map (\<lambda>n. (recipient_email n, n_status n))
        (notifications (db (snd (send_chef_notification one_fails three_chefs))))
       = [(''a@kitchen'', ''sent''), (''b@kitchen'', ''failed''), (''c@kitchen'', ''sent'')]
   \<and> map fst (outbox (snd (send_chef_notification one_fails three_chefs)))
       = [''a@kitchen'', ''b@kitchen'', ''c@kitchen'']"
proof -
  have wd: "weekday (today one_fails) \<noteq> 5" "weekday (today one_fails) \<noteq> 6"
    using monday_not_weekend by (simp_all add: one_fails_def)
  have ok: "\<forall>op. db_error one_fails op = None"
    by (simp add: one_fails_def scenario_defs)
  have key: "key_configured one_fails"
    by (simp add: key_configured_def one_fails_def scenario_defs)
  have s: "send_ok one_fails subject body k c \<longleftrightarrow> c \<noteq> ''b@kitchen''"
    for subject body k c
    by (simp add: send_ok_def key_configured_def one_fails_def scenario_defs)
  have w0: "outbox three_chefs = []" "notifications (db three_chefs) = []"
    by (simp_all add: three_chefs_def empty_world_def)
  from dispatch_isolation [OF wd ok, of three_chefs] key
  show ?thesis
    by (simp add: three_chefs_active notification_def s w0 comp_def)
qed

text \<open>
  Without the two conditions the statement fails. The loop has no handler of its own:
  with three active chefs and the second INSERT failing, the third chef gets no send
  attempt at all and no entry is stored. And on a Saturday the run ends before the
  chefs are looked up: nobody gets a send attempt.
\<close>

theorem dispatch_fault_counterexample:
  "active_chefs (users (db three_chefs)) = [''a@kitchen'', ''b@kitchen'', ''c@kitchen'']
   \<and> db_error insert_fault (InsertNotification 1) = Some ''server has gone away''
   \<and> map fst (outbox (snd (send_chef_notification insert_fault three_chefs)))
       = [''a@kitchen'', ''b@kitchen'']
   \<and> notifications (db (snd (send_chef_notification insert_fault three_chefs))) = []
   \<and> weekday (today saturday_evening) = 5
   \<and> send_chef_notification saturday_evening three_chefs
       = (Inr (), log_msg INFO ''Skipping chef notification - weekend'' three_chefs)"
  by (simp add: send_chef_notification_def send_chef_notification_try_def get_db_connection_def
      is_weekend_def weekday_def three_chefs_active send_email_notification_def Let_def
      log_msg_def insert_fault_def monday_morning_def monday_evening_def saturday_evening_def
      ymd2ord_june_2024 three_chefs_fields)

section \<open>Dispatch without a key\<close>

text \<open>
  C7, as the code has it. When the key is missing or empty, a dispatch run on a working
  day in which no database operation fails raises nothing, posts nothing to the gateway and
  records an entry with status ``failed'' for every active chef; it writes one warning
  ``Brevo API key not configured'' for each recipient, since the warning is written by
  every call of \<open>send_email_notification\<close>. (With no active chef the only warning is
  ``No active chefs found for notification''.)
\<close>

theorem missing_key:
  fixes e w
  defines "chefs \<equiv> active_chefs (users (db w))"
    and "cnt \<equiv> count_office (today e) (attendance (db w))"
  assumes "brevo_api_key e = None \<or> brevo_api_key e = Some ''''"
    and "weekday (today e) \<noteq> 5" and "weekday (today e) \<noteq> 6"
    and "\<forall>op. db_error e op = None"
  shows "fst (send_chef_notification e w) = Inr ()
     \<and> notifications (db (snd (send_chef_notification e w)))
         = notifications (db w) @ map (\<lambda>c. notification c (body_template e cnt) cnt False) chefs
     \<and> outbox (snd (send_chef_notification e w)) = outbox w
     \<and> warnings (log (snd (send_chef_notification e w)))
         = warnings (log w)
           @ (if chefs = [] then [(WARNING, ''No active chefs found for notification'')]
              else replicate (length chefs) (WARNING, ''Brevo API key not configured''))"
proof -
  have wd: "\<not> is_weekend (today e)" using assms(4,5) by (simp add: is_weekend_iff)
  have nokey: "\<not> key_configured e" using assms(3) by (auto simp: key_configured_def)
  have ent: "entries e s b n k cs = map (\<lambda>c. notification c b n False) cs" for s b n k cs
    using nokey
    by (induction cs arbitrary: k) (auto simp: entries_def send_ok_def key_configured_def)
  have logs: "map (\<lambda>(j, c). send_log e s b j c) (enumerate k cs)
        = replicate (length cs) (WARNING, ''Brevo API key not configured'')" for s b k cs
    using nokey by (induction cs arbitrary: k) (auto simp: send_log_def)
  show ?thesis
  proof (cases "chefs = []")
    case True
    then have "send_chef_notification e w =
        (Inr (), log_msg WARNING ''No active chefs found for notification'' w)"
      using wd assms(6) unfolding chefs_def by (simp add: send_chef_notification_no_chefs)
    with True show ?thesis by (simp add: log_msg_def warnings_def)
  next
    case False
    then show ?thesis
      using send_chef_notification_ok [OF wd assms(6)] nokey unfolding chefs_def cnt_def
      by (simp add: log_msg_def after_sends_def ent logs warnings_def)
  qed
qed

text \<open>Three active chefs and no key: three failed entries, three warnings.\<close>

theorem missing_key_witness:
  "brevo_api_key no_key = None
   \<and> fst (send_chef_notification no_key three_chefs) = Inr ()
   \<and> map (\<lambda>n. (recipient_email n, n_status n))
        (notifications (db (snd (send_chef_notification no_key three_chefs))))
       = [(''a@kitchen'', ''failed''), (''b@kitchen'', ''failed''), (''c@kitchen'', ''failed'')]
   \<and> warnings (log (snd (send_chef_notification no_key three_chefs)))
       = [(WARNING, ''Brevo API key not configured''), (WARNING, ''Brevo API key not configured''),
          (WARNING, ''Brevo API key not configured'')]"
proof -
  have wd: "weekday (today no_key) \<noteq> 5" "weekday (today no_key) \<noteq> 6"
    using monday_not_weekend by (simp_all add: no_key_def)
  have ok: "\<forall>op. db_error no_key op = None"
    by (simp add: no_key_def scenario_defs)
  have key: "brevo_api_key no_key = None \<or> brevo_api_key no_key = Some ''''"
    by (simp add: no_key_def)
  have w0: "warnings (log three_chefs) = []" "notifications (db three_chefs) = []"
    by (simp_all add: three_chefs_def empty_world_def warnings_def)
  from missing_key [OF key wd ok, of three_chefs]
  show ?thesis
    by (simp add: three_chefs_active notification_def w0 numeral_3_eq_3) (simp add: no_key_def)
qed

text \<open>
  The run with three recipients and no key does not emit exactly one warning, but three.
  Without the two conditions the rest fails as well: when the first INSERT fails, the
  run with three recipients and no key records no entry and emits a single warning; when
  the connection fails, the run raises; on a Saturday nothing is recorded and no warning
  is emitted.
\<close>

theorem one_warning_per_run_counterexample:
  "brevo_api_key no_key = None
   \<and> fst (send_chef_notification no_key three_chefs) = Inr ()
   \<and> length (warnings (log (snd (send_chef_notification no_key three_chefs)))) = 3
   \<and> brevo_api_key no_key_insert_fault = None
   \<and> notifications (db (snd (send_chef_notification no_key_insert_fault three_chefs))) = []
   \<and> length (warnings (log (snd (send_chef_notification no_key_insert_fault three_chefs)))) = 1
   \<and> brevo_api_key no_key_connect_fault = None
   \<and> fst (send_chef_notification no_key_connect_fault three_chefs)
       = Inl (HTTPException 500 ''Database connection failed'')
   \<and> brevo_api_key saturday_no_key = None
   \<and> weekday (today saturday_no_key) = 5
   \<and> notifications (db (snd (send_chef_notification saturday_no_key three_chefs))) = []
   \<and> warnings (log (snd (send_chef_notification saturday_no_key three_chefs))) = []"
  by (simp add: send_chef_notification_def send_chef_notification_try_def get_db_connection_def
      is_weekend_def weekday_def three_chefs_active send_email_notification_def Let_def
      log_msg_def warnings_def no_key_def no_key_insert_fault_def no_key_connect_fault_def
      saturday_no_key_def saturday_evening_def monday_morning_def monday_evening_def
      ymd2ord_june_2024 three_chefs_fields)

section \<open>Dispatch: a persistence failure\<close>

text \<open>
  C8, as the code has it. The entries of a run are committed once, after the loop. When,
  on a working day, the first \<open>k\<close> INSERTs of the run succeed and then either the next
  INSERT fails or, all INSERTs done, the commit fails, the database is left exactly as it
  was before the run: no entry of the run is persisted, although the first \<open>k + 1\<close>
  recipients (all of them, for a failing commit) have had their send, as the log shows.
  The failure is logged as an error and the run ends without raising.
\<close>

theorem persistence_fault_discards_run:
  fixes e w
  defines "chefs \<equiv> active_chefs (users (db w))"
    and "cnt \<equiv> count_office (today e) (attendance (db w))"
  assumes "weekday (today e) \<noteq> 5" and "weekday (today e) \<noteq> 6"
    and "db_error e Connect = None" and "db_error e SelectOfficeCount = None"
    and "db_error e SelectChefs = None"
    and "\<forall>j<k. db_error e (InsertNotification j) = None"
    and "(k < length chefs \<and> db_error e (InsertNotification k) = Some x)
         \<or> (k = length chefs \<and> chefs \<noteq> [] \<and> db_error e Commit = Some x)"
  shows "fst (send_chef_notification e w) = Inr ()
     \<and> db (snd (send_chef_notification e w)) = db w
     \<and> log (snd (send_chef_notification e w))
         = log w
           @ map (\<lambda>(j, c). send_log e (subject_of e) (body_template e cnt) j c)
               (enumerate 0 (take (Suc k) chefs))
           @ [(ERROR, ''Failed to send chef notifications: '' @ x)]"
proof -
  have wd: "\<not> is_weekend (today e)" using assms(3,4) by (simp add: is_weekend_iff)
  from assms(9) have ne: "chefs \<noteq> []" by auto
  from assms(9) have "send_chef_notification_try e w =
      (Inl x, after_sends e (subject_of e) (body_template e cnt) 0 (take (Suc k) chefs) w)"
  proof
    assume a: "k < length chefs \<and> db_error e (InsertNotification k) = Some x"
    then have "send_loop e (subject_of e) (body_template e cnt) cnt 0 chefs [] w =
        (Inl x, after_sends e (subject_of e) (body_template e cnt) 0 (take (Suc k) chefs) w)"
      using assms(8) by (intro send_loop_fault) simp_all
    then show ?thesis
      using ne assms(6,7) unfolding chefs_def cnt_def
      by (simp add: send_chef_notification_try_def Let_def)
  next
    assume a: "k = length chefs \<and> chefs \<noteq> [] \<and> db_error e Commit = Some x"
    then have "send_loop e (subject_of e) (body_template e cnt) cnt 0 chefs [] w =
        (Inr ([] @ entries e (subject_of e) (body_template e cnt) cnt 0 chefs),
         after_sends e (subject_of e) (body_template e cnt) 0 chefs w)"
      using assms(8) by (intro send_loop_ok) simp
    then show ?thesis
      using a assms(6,7) unfolding chefs_def cnt_def
      by (simp add: send_chef_notification_try_def Let_def)
  qed
  then show ?thesis
    using wd assms(5)
    by (simp add: send_chef_notification_def get_db_connection_def log_msg_def after_sends_def)
qed

text \<open>Three active chefs, the second INSERT failing.\<close>

theorem persistence_fault_discards_run_witness:
  "db_error insert_fault (InsertNotification 0) = None
   \<and> db_error insert_fault (InsertNotification 1) = Some ''server has gone away''
   \<and> fst (send_chef_notification insert_fault three_chefs) = Inr ()
   \<and> db (snd (send_chef_notification insert_fault three_chefs)) = db three_chefs
   \<and> log (snd (send_chef_notification insert_fault three_chefs))
       = [(INFO, ''Email sent to a@kitchen''), (INFO, ''Email sent to b@kitchen''),
          (ERROR, ''Failed to send chef notifications: server has gone away'')]"
proof -
  have wd: "weekday (today insert_fault) \<noteq> 5" "weekday (today insert_fault) \<noteq> 6"
    using monday_not_weekend by (simp_all add: insert_fault_def)
  have ok: "db_error insert_fault Connect = None" "db_error insert_fault SelectOfficeCount = None"
    "db_error insert_fault SelectChefs = None"
    by (simp_all add: insert_fault_def)
  have before: "\<forall>j<1. db_error insert_fault (InsertNotification j) = None"
    by (simp add: insert_fault_def)
  have at: "(1 < length (active_chefs (users (db three_chefs)))
               \<and> db_error insert_fault (InsertNotification 1) = Some ''server has gone away'')
            \<or> (1 = length (active_chefs (users (db three_chefs)))
               \<and> active_chefs (users (db three_chefs)) \<noteq> []
               \<and> db_error insert_fault Commit = Some ''server has gone away'')"
    by (simp add: three_chefs_active insert_fault_def)
  have l: "send_log insert_fault subject body k c = (INFO, ''Email sent to '' @ c)"
    for subject body k c
    by (simp add: send_log_def key_configured_def insert_fault_def scenario_defs)
  from persistence_fault_discards_run [OF wd ok before at] before at
  show ?thesis
    by (simp add: three_chefs_active three_chefs_fields l)
qed

text \<open>
  Best-effort partial persistence fails there: the first recipient's send succeeded and
  its INSERT succeeded before the fault, and no entry is in the table after the run.
\<close>

theorem partial_persistence_counterexample:
  "db_error insert_fault (InsertNotification 0) = None
   \<and> db_error insert_fault (InsertNotification 1) = Some ''server has gone away''
   \<and> log (snd (send_chef_notification insert_fault three_chefs))
       = [(INFO, ''Email sent to a@kitchen''), (INFO, ''Email sent to b@kitchen''),
          (ERROR, ''Failed to send chef notifications: server has gone away'')]
   \<and> notifications (db (snd (send_chef_notification insert_fault three_chefs))) = []"
  by (simp add: send_chef_notification_def send_chef_notification_try_def get_db_connection_def
      is_weekend_def weekday_def three_chefs_active send_email_notification_def Let_def
      log_msg_def insert_fault_def monday_morning_def monday_evening_def
      ymd2ord_june_2024 three_chefs_fields)

section \<open>Dispatch: one count and one body for the whole run\<close>

text \<open>
  C10. The office count and the message body are computed once, before the loop: in
  every run, whatever the number of recipients, the outcomes of the sends and the faults
  of the database, every entry that the run adds to the notification table records the
  count of today's office records as the run found it and the body rendered from it.
\<close>

theorem same_count_and_body:
  "\<exists>new. notifications (db (snd (send_chef_notification e w))) = notifications (db w) @ new
     \<and> (\<forall>n\<in>set new.
           n_office_count n = count_office (today e) (attendance (db w))
           \<and> content n = body_template e (count_office (today e) (attendance (db w))))"
proof -
  let ?cnt = "count_office (today e) (attendance (db w))"
  let ?P = "\<lambda>w'. \<exists>new. notifications (db w') = notifications (db w) @ new
     \<and> (\<forall>n\<in>set new. n_office_count n = ?cnt \<and> content n = body_template e ?cnt)"
  have same: "?P w'" if "db w' = db w" for w'
    using that by simp
  have inner: "?P (snd (send_chef_notification_try e w))"
  proof (cases "db_error e SelectOfficeCount = None \<and> db_error e SelectChefs = None
                  \<and> active_chefs (users (db w)) \<noteq> []")
    case False
    then have "db (snd (send_chef_notification_try e w)) = db w"
      by (auto simp: send_chef_notification_try_def Let_def log_msg_def split: option.splits)
    then show ?thesis by (rule same)
  next
    case True
    obtain r w' where loop: "send_loop e (subject_of e) (body_template e ?cnt) ?cnt 0
        (active_chefs (users (db w))) [] w = (r, w')"
      by (cases "send_loop e (subject_of e) (body_template e ?cnt) ?cnt 0
        (active_chefs (users (db w))) [] w")
    have dbw': "db w' = db w" using send_loop_db [of e "subject_of e" "body_template e ?cnt" ?cnt 0
        "active_chefs (users (db w))" "[]" w] loop by simp
    show ?thesis
    proof (cases r)
      case (Inl x)
      with True loop have "db (snd (send_chef_notification_try e w)) = db w"
        by (simp add: send_chef_notification_try_def Let_def dbw')
      then show ?thesis by (rule same)
    next
      case (Inr p)
      from send_loop_pending [OF loop [unfolded Inr]] obtain new where
        new: "p = new" "\<forall>n\<in>set new. n_office_count n = ?cnt \<and> content n = body_template e ?cnt"
        by auto
      show ?thesis
      proof (cases "db_error e Commit")
        case None
        with True loop Inr new show ?thesis
          by (simp add: send_chef_notification_try_def Let_def dbw' log_msg_def)
      next
        case (Some x)
        with True loop Inr have "db (snd (send_chef_notification_try e w)) = db w"
          by (simp add: send_chef_notification_try_def Let_def dbw')
        then show ?thesis by (rule same)
      qed
    qed
  qed
  show ?thesis
  proof (cases "is_weekend (today e) \<or> db_error e Connect \<noteq> None")
    case True
    then have "db (snd (send_chef_notification e w)) = db w"
      by (auto simp: send_chef_notification_def get_db_connection_def log_msg_def)
    then show ?thesis by (rule same)
  next
    case False
    then have "db (snd (send_chef_notification e w)) = db (snd (send_chef_notification_try e w))"
      by (auto simp: send_chef_notification_def get_db_connection_def log_msg_def
          split: prod.splits sum.splits)
    with inner show ?thesis by simp
  qed
qed

text \<open>Three recipients, one failed send, one office record today: three entries with
  count 1 and the same body.\<close>

theorem same_count_and_body_witness:
  "map (\<lambda>n. (n_office_count n, content n = body_template one_fails 1))
     (notifications (db (snd (send_chef_notification one_fails three_chefs))))
   = [(1, True), (1, True), (1, True)]"
proof -
  from same_count_and_body [of one_fails three_chefs] obtain new where
    new: "notifications (db (snd (send_chef_notification one_fails three_chefs))) = new"
    and all: "\<forall>n\<in>set new. n_office_count n = 1 \<and> content n = body_template one_fails 1"
    by (auto simp: three_chefs_fields three_chefs_count)
  from one_fails_run_length new have "length new = 3" by simp
  then obtain a b c where "new = [a, b, c]"
    by (auto simp: numeral_3_eq_3 length_Suc_conv)
  with all new show ?thesis by simp
qed

end
